theory Spec2Isabelle
  imports Main "HOL-Library.AList"
begin

section \<open>Python values and exceptions\<close>

text \<open>
  The values that \<^verbatim>\<open>response.json()\<close> decodes to, which are also the values the tool
  handlers build their \<^verbatim>\<open>Dict[str, Any]\<close> results from. A Python \<^verbatim>\<open>dict\<close> is an
  association list in insertion order; a lookup takes the first pair of a key. A float is
  kept as mantissa and binary exponent; no function below inspects a number.
\<close>

datatype json =
    JNull
  | JBool bool
  | JInt int
  | JFloat int int
  | JStr string
  | JArr "json list"
  | JObj "(string \<times> json) list"

text \<open>
  The exceptions that reach the functions below. \<open>KeyError\<close> carries the missing key,
  every other constructor the text that \<^verbatim>\<open>str(e)\<close> gives. \<open>RequestException\<close> stands for
  the whole \<^verbatim>\<open>requests.exceptions.RequestException\<close> family, \<open>JSONDecodeError\<close> for a
  \<^verbatim>\<open>json.JSONDecodeError\<close> that is not a \<^verbatim>\<open>RequestException\<close>, and \<open>OtherException\<close> for
  any other subclass of \<^verbatim>\<open>Exception\<close> the HTTP library may raise.
\<close>

datatype py_exception =
    ValueError string
  | KeyError string
  | TypeError string
  | RequestException string
  | JSONDecodeError string
  | OtherException string

datatype py_op = Subscript | Len

datatype auth_value =
    NoAuth
  | AuthHeaders "(string \<times> string) list"
  | HTTPBasicAuth string string

record http_request =
  get_url :: string
  get_params :: "(string \<times> string) list option"
  get_auth :: auth_value
  get_headers :: "(string \<times> string) list"

text \<open>
  What the code takes from outside the repository: the HTTP round trip
  (\<^verbatim>\<open>requests.get\<close>, \<^verbatim>\<open>raise_for_status\<close> and \<^verbatim>\<open>response.json\<close>, which either raise or give
  the decoded body, and may change the outside world \<open>'w\<close>), and the texts the Python
  runtime produces: \<^verbatim>\<open>repr\<close> of a \<^verbatim>\<open>str\<close>, \<^verbatim>\<open>str\<close> of a decoded value that is not a
  \<^verbatim>\<open>str\<close>, and the message of the \<^verbatim>\<open>TypeError\<close> of a subscript or \<^verbatim>\<open>len\<close> on a value
  that does not support it.
\<close>

record 'w runtime =
  requests_get :: "http_request \<Rightarrow> 'w \<Rightarrow> (py_exception + json) \<times> 'w"
  repr_str :: "string \<Rightarrow> string"
  str_json :: "json \<Rightarrow> string"
  type_error_msg :: "py_op \<Rightarrow> json \<Rightarrow> string"

abbreviation apostrophe :: string where
  "apostrophe \<equiv> [CHR 0x27]"

text \<open>Truthiness of an \<^verbatim>\<open>Optional[str]\<close>: \<^verbatim>\<open>None\<close> and \<^verbatim>\<open>""\<close> are false.\<close>

fun truthy :: "string option \<Rightarrow> bool" where
  "truthy None = False"
| "truthy (Some s) = (s \<noteq> [])"

text \<open>\<^verbatim>\<open>a or b\<close> on two \<^verbatim>\<open>Optional[str]\<close> values.\<close>

definition py_or :: "string option \<Rightarrow> string option \<Rightarrow> string option" where
  "py_or a b = (if truthy a then a else b)"

text \<open>An \<^verbatim>\<open>Optional[str]\<close> inside an f-string, and as a value of a result dict.\<close>

fun format_opt :: "string option \<Rightarrow> string" where
  "format_opt None = ''None''"
| "format_opt (Some s) = s"

fun json_of_opt :: "string option \<Rightarrow> json" where
  "json_of_opt None = JNull"
| "json_of_opt (Some s) = JStr s"

text \<open>A decoded value inside an f-string: a \<^verbatim>\<open>str\<close> is inserted as it is.\<close>

fun format_json :: "'w runtime \<Rightarrow> json \<Rightarrow> string" where
  "format_json rt (JStr s) = s"
| "format_json rt v = str_json rt v"

text \<open>\<^verbatim>\<open>str\<close> of a list of strings: the \<^verbatim>\<open>repr\<close> of each, separated by a comma and a space.\<close>

fun join_comma :: "string list \<Rightarrow> string" where
  "join_comma [] = []"
| "join_comma [s] = s"
| "join_comma (s # t # ss) = s @ '', '' @ join_comma (t # ss)"

definition str_list :: "'w runtime \<Rightarrow> string list \<Rightarrow> string" where
  "str_list rt ss = ''['' @ join_comma (map (repr_str rt) ss) @ '']''"

text \<open>\<^verbatim>\<open>str(e)\<close>: for a \<^verbatim>\<open>KeyError\<close> the \<^verbatim>\<open>repr\<close> of the key.\<close>

fun str_exception :: "'w runtime \<Rightarrow> py_exception \<Rightarrow> string" where
  "str_exception rt (ValueError m) = m"
| "str_exception rt (KeyError k) = repr_str rt k"
| "str_exception rt (TypeError m) = m"
| "str_exception rt (RequestException m) = m"
| "str_exception rt (JSONDecodeError m) = m"
| "str_exception rt (OtherException m) = m"

text \<open>
  \<^verbatim>\<open>d[k]\<close> with a string key, \<^verbatim>\<open>d.get(k, default)\<close> and \<^verbatim>\<open>len(d)\<close>. The code calls
  \<^verbatim>\<open>get\<close> only on a value whose subscript has succeeded, that is, on a dict. The number of
  keys of a dict counts each key once.
\<close>

fun py_getitem :: "'w runtime \<Rightarrow> json \<Rightarrow> string \<Rightarrow> py_exception + json" where
  "py_getitem rt (JObj kvs) k =
     (case map_of kvs k of None \<Rightarrow> Inl (KeyError k) | Some v \<Rightarrow> Inr v)"
| "py_getitem rt v k = Inl (TypeError (type_error_msg rt Subscript v))"

fun dict_get :: "json \<Rightarrow> string \<Rightarrow> json \<Rightarrow> json" where
  "dict_get (JObj kvs) k d = (case map_of kvs k of None \<Rightarrow> d | Some v \<Rightarrow> v)"
| "dict_get v k d = d"

definition dict_len :: "(string \<times> json) list \<Rightarrow> nat" where
  "dict_len kvs = length (remdups (map fst kvs))"

fun py_len :: "'w runtime \<Rightarrow> json \<Rightarrow> py_exception + nat" where
  "py_len rt (JStr s) = Inr (length s)"
| "py_len rt (JArr xs) = Inr (length xs)"
| "py_len rt (JObj kvs) = Inr (dict_len kvs)"
| "py_len rt v = Inl (TypeError (type_error_msg rt Len v))"

text \<open>Sequencing of steps that may raise.\<close>

fun and_then :: "'e + 'a \<Rightarrow> ('a \<Rightarrow> 'e + 'b) \<Rightarrow> 'e + 'b" where
  "and_then (Inl e) f = Inl e"
| "and_then (Inr x) f = f x"

text \<open>\<^verbatim>\<open>s.rstrip('/')\<close>.\<close>

definition rstrip_slash :: "string \<Rightarrow> string" where
  "rstrip_slash s = rev (dropWhile (\<lambda>c. c = CHR ''/'') (rev s))"

section \<open>Tenants and the configuration\<close>

record PrometheusTenant =
  name :: string
  url :: string
  username :: "string option"
  password :: "string option"
  token :: "string option"
  org_id :: "string option"

text \<open>\<^verbatim>\<open>PrometheusTenant.__post_init__\<close>.\<close>

definition tenant_post_init :: "PrometheusTenant \<Rightarrow> py_exception + PrometheusTenant" where
  "tenant_post_init t =
     (if name t = [] then Inl (ValueError ''Tenant name is required'')
      else if url t = []
        then Inl (ValueError (''URL is required for tenant '' @ apostrophe @ name t @ apostrophe))
      else Inr t)"

text \<open>
  \<^verbatim>\<open>PrometheusConfig\<close>; the transport settings it also carries are read by no function
  below.
\<close>

record PrometheusConfig =
  tenants :: "PrometheusTenant list"
  default_tenant :: "string option"

text \<open>
  \<^verbatim>\<open>get_tenant\<close>: the first tenant of that name. The callers also pass an unset
  \<^verbatim>\<open>Optional[str]\<close>, which equals no name.
\<close>

fun find_tenant :: "PrometheusTenant list \<Rightarrow> string option \<Rightarrow> PrometheusTenant option" where
  "find_tenant [] n = None"
| "find_tenant (t # ts) n = (if Some (name t) = n then Some t else find_tenant ts n)"

definition get_tenant :: "PrometheusConfig \<Rightarrow> string option \<Rightarrow> PrometheusTenant option" where
  "get_tenant config n = find_tenant (tenants config) n"

definition list_tenant_names :: "PrometheusConfig \<Rightarrow> string list" where
  "list_tenant_names config = map name (tenants config)"

text \<open>\<^verbatim>\<open>PrometheusConfig.__post_init__\<close>: validates, and fills in the default tenant.\<close>

definition config_post_init :: "PrometheusConfig \<Rightarrow> py_exception + PrometheusConfig" where
  "config_post_init config =
     (case tenants config of
        [] \<Rightarrow> Inl (ValueError ''At least one tenant must be configured'')
      | t0 # _ \<Rightarrow>
          let config1 = (if \<not> truthy (default_tenant config)
                         then config\<lparr>default_tenant := Some (name t0)\<rparr> else config)
          in if truthy (default_tenant config1)
                \<and> get_tenant config1 (default_tenant config1) = None
             then Inl (ValueError (''Default tenant '' @ apostrophe
                                   @ format_opt (default_tenant config1)
                                   @ apostrophe @ '' not found in tenant list''))
             else Inr config1)"

section \<open>Authentication and the request\<close>

text \<open>\<^verbatim>\<open>get_prometheus_auth\<close>.\<close>

definition get_prometheus_auth :: "PrometheusTenant \<Rightarrow> auth_value" where
  "get_prometheus_auth t =
     (if truthy (token t) then AuthHeaders [(''Authorization'', ''Bearer '' @ the (token t))]
      else if truthy (username t) \<and> truthy (password t)
        then HTTPBasicAuth (the (username t)) (the (password t))
      else NoAuth)"

text \<open>
  The body of the \<^verbatim>\<open>try\<close> of \<^verbatim>\<open>make_prometheus_request\<close> once the response is decoded.
  The exceptions raised here pass through the last handler, which raises them again.
\<close>

definition check_envelope :: "'w runtime \<Rightarrow> string option \<Rightarrow> json \<Rightarrow> py_exception + json" where
  "check_envelope rt tenant_name result =
     and_then (py_getitem rt result ''status'') (\<lambda>status.
       if status \<noteq> JStr ''success''
       then Inl (ValueError (''Prometheus API error for tenant '' @ apostrophe
                   @ format_opt tenant_name @ apostrophe @ '': ''
                   @ format_json rt (dict_get result ''error'' (JStr ''Unknown error''))))
       else py_getitem rt result ''data'')"

text \<open>
  The handlers of the \<^verbatim>\<open>try\<close>: a \<^verbatim>\<open>RequestException\<close> is raised again, a
  \<^verbatim>\<open>json.JSONDecodeError\<close> becomes a \<^verbatim>\<open>ValueError\<close>, anything else is raised again.
\<close>

fun handle_exception :: "string option \<Rightarrow> py_exception \<Rightarrow> py_exception" where
  "handle_exception tenant_name (JSONDecodeError m) =
     ValueError (''Invalid JSON response from Prometheus tenant '' @ apostrophe
                 @ format_opt tenant_name @ apostrophe @ '': '' @ m)"
| "handle_exception tenant_name e = e"

text \<open>
  \<^verbatim>\<open>make_prometheus_request\<close>, in the order of its body: the tenant name that is looked
  up, the request that is built for the tenant found, the round trip inside the \<^verbatim>\<open>try\<close>,
  and the function itself.
\<close>

definition resolve_name :: "PrometheusConfig \<Rightarrow> string option \<Rightarrow> string option" where
  "resolve_name config tenant_name =
     (case tenant_name of None \<Rightarrow> default_tenant config | Some n \<Rightarrow> Some n)"

definition build_request ::
  "PrometheusTenant \<Rightarrow> string \<Rightarrow> (string \<times> string) list option \<Rightarrow> http_request" where
  "build_request tenant endpoint params =
     (let auth = get_prometheus_auth tenant;
          headers = (case auth of AuthHeaders hs \<Rightarrow> hs | _ \<Rightarrow> []);
          auth1 = (case auth of AuthHeaders hs \<Rightarrow> NoAuth | _ \<Rightarrow> auth);
          headers1 = (if truthy (org_id tenant)
                      then AList.update ''X-Scope-OrgID'' (the (org_id tenant)) headers
                      else headers)
      in \<lparr>get_url = rstrip_slash (url tenant) @ ''/api/v1/'' @ endpoint,
          get_params = params, get_auth = auth1, get_headers = headers1\<rparr>)"

definition send_request ::
  "'w runtime \<Rightarrow> string option \<Rightarrow> PrometheusTenant \<Rightarrow> string
     \<Rightarrow> (string \<times> string) list option \<Rightarrow> 'w \<Rightarrow> (py_exception + json) \<times> 'w" where
  "send_request rt tenant_name tenant endpoint params w =
     (let (r, w1) = requests_get rt (build_request tenant endpoint params) w
      in (case and_then r (check_envelope rt tenant_name) of
            Inl e \<Rightarrow> (Inl (handle_exception tenant_name e), w1)
          | Inr d \<Rightarrow> (Inr d, w1)))"

definition make_prometheus_request ::
  "'w runtime \<Rightarrow> PrometheusConfig \<Rightarrow> string \<Rightarrow> (string \<times> string) list option
     \<Rightarrow> string option \<Rightarrow> 'w \<Rightarrow> (py_exception + json) \<times> 'w" where
  "make_prometheus_request rt config endpoint params tenant_name0 w =
     (let tenant_name = resolve_name config tenant_name0
      in case get_tenant config tenant_name of
           None \<Rightarrow>
             (Inl (ValueError (''Tenant '' @ apostrophe @ format_opt tenant_name @ apostrophe
                     @ '' not found. Available tenants: ''
                     @ str_list rt (list_tenant_names config))), w)
         | Some tenant \<Rightarrow> send_request rt tenant_name tenant endpoint params w)"

section \<open>The tool handlers\<close>

text \<open>\<^verbatim>\<open>list_tenants\<close>: one dict for each tenant, then the summary.\<close>

definition tenant_info :: "PrometheusTenant \<Rightarrow> json" where
  "tenant_info t =
     JObj [(''name'', JStr (name t)),
           (''url'', JStr (url t)),
           (''has_auth'', JBool (truthy (py_or (username t) (token t)))),
           (''org_id'', json_of_opt (org_id t))]"

definition list_tenants :: "PrometheusConfig \<Rightarrow> json" where
  "list_tenants config =
     JObj [(''tenants'', JArr (map tenant_info (tenants config))),
           (''default_tenant'', json_of_opt (default_tenant config)),
           (''total_count'', JInt (int (length (tenants config))))]"

text \<open>The parameters of an instant query: \<^verbatim>\<open>time\<close> is added when it is set and not empty.\<close>

definition query_params :: "string \<Rightarrow> string option \<Rightarrow> (string \<times> string) list" where
  "query_params query time =
     (if truthy time then AList.update ''time'' (the time) [(''query'', query)]
      else [(''query'', query)])"

text \<open>\<^verbatim>\<open>execute_query\<close>.\<close>

definition execute_query ::
  "'w runtime \<Rightarrow> PrometheusConfig \<Rightarrow> string \<Rightarrow> string option \<Rightarrow> string option \<Rightarrow> 'w
     \<Rightarrow> (py_exception + json) \<times> 'w" where
  "execute_query rt config query time tenant w =
     (let tenant_name = py_or tenant (default_tenant config);
          (r, w1) = make_prometheus_request rt config ''query''
                      (Some (query_params query time)) tenant_name w
      in (and_then r (\<lambda>data.
          and_then (py_getitem rt data ''resultType'') (\<lambda>result_type.
          and_then (py_getitem rt data ''result'') (\<lambda>result.
            Inr (JObj [(''resultType'', result_type),
                       (''result'', result),
                       (''tenant'', json_of_opt tenant_name)])))), w1))"

text \<open>\<^verbatim>\<open>execute_range_query\<close>.\<close>

definition execute_range_query ::
  "'w runtime \<Rightarrow> PrometheusConfig \<Rightarrow> string \<Rightarrow> string \<Rightarrow> string \<Rightarrow> string \<Rightarrow> string option
     \<Rightarrow> 'w \<Rightarrow> (py_exception + json) \<times> 'w" where
  "execute_range_query rt config query start end_time step tenant w =
     (let params = [(''query'', query), (''start'', start), (''end'', end_time), (''step'', step)];
          tenant_name = py_or tenant (default_tenant config);
          (r, w1) = make_prometheus_request rt config ''query_range'' (Some params) tenant_name w
      in (and_then r (\<lambda>data.
          and_then (py_getitem rt data ''resultType'') (\<lambda>result_type.
          and_then (py_getitem rt data ''result'') (\<lambda>result.
            Inr (JObj [(''resultType'', result_type),
                       (''result'', result),
                       (''tenant'', json_of_opt tenant_name)])))), w1))"

text \<open>\<^verbatim>\<open>list_metrics\<close>.\<close>

definition list_metrics ::
  "'w runtime \<Rightarrow> PrometheusConfig \<Rightarrow> string option \<Rightarrow> 'w \<Rightarrow> (py_exception + json) \<times> 'w" where
  "list_metrics rt config tenant w =
     (let tenant_name = py_or tenant (default_tenant config);
          (r, w1) = make_prometheus_request rt config ''label/__name__/values'' None tenant_name w
      in (and_then r (\<lambda>data.
          and_then (py_len rt data) (\<lambda>n.
            Inr (JObj [(''metrics'', data),
                       (''tenant'', json_of_opt tenant_name),
                       (''count'', JInt (int n))]))), w1))"

text \<open>\<^verbatim>\<open>get_metric_metadata\<close>.\<close>

definition get_metric_metadata ::
  "'w runtime \<Rightarrow> PrometheusConfig \<Rightarrow> string \<Rightarrow> string option \<Rightarrow> 'w
     \<Rightarrow> (py_exception + json) \<times> 'w" where
  "get_metric_metadata rt config metric tenant w =
     (let tenant_name = py_or tenant (default_tenant config);
          (r, w1) = make_prometheus_request rt config ''metadata''
                      (Some [(''metric'', metric)]) tenant_name w
      in (and_then r (\<lambda>data.
          and_then (py_getitem rt data ''metadata'') (\<lambda>metadata.
          and_then (py_len rt metadata) (\<lambda>n.
            Inr (JObj [(''metadata'', metadata),
                       (''metric'', JStr metric),
                       (''tenant'', json_of_opt tenant_name),
                       (''count'', JInt (int n))])))), w1))"

text \<open>\<^verbatim>\<open>get_targets\<close>.\<close>

definition get_targets ::
  "'w runtime \<Rightarrow> PrometheusConfig \<Rightarrow> string option \<Rightarrow> 'w \<Rightarrow> (py_exception + json) \<times> 'w" where
  "get_targets rt config tenant w =
     (let tenant_name = py_or tenant (default_tenant config);
          (r, w1) = make_prometheus_request rt config ''targets'' None tenant_name w
      in (and_then r (\<lambda>data.
          and_then (py_getitem rt data ''activeTargets'') (\<lambda>active.
          and_then (py_getitem rt data ''droppedTargets'') (\<lambda>dropped.
          and_then (py_len rt active) (\<lambda>na.
          and_then (py_len rt dropped) (\<lambda>nd.
            Inr (JObj [(''activeTargets'', active),
                       (''droppedTargets'', dropped),
                       (''tenant'', json_of_opt tenant_name),
                       (''active_count'', JInt (int na)),
                       (''dropped_count'', JInt (int nd))])))))), w1))"

section \<open>The query across all tenants\<close>

text \<open>
  The body of the \<^verbatim>\<open>try\<close> in the loop of \<^verbatim>\<open>execute_query_all_tenants\<close>: the request
  for one tenant, and the entry of \<^verbatim>\<open>results\<close> built from its data.
\<close>

definition query_tenant ::
  "'w runtime \<Rightarrow> PrometheusConfig \<Rightarrow> (string \<times> string) list \<Rightarrow> PrometheusTenant \<Rightarrow> 'w
     \<Rightarrow> (py_exception + json) \<times> 'w" where
  "query_tenant rt config params tenant w =
     (let (r, w1) = make_prometheus_request rt config ''query'' (Some params)
                      (Some (name tenant)) w
      in (and_then r (\<lambda>data.
          and_then (py_getitem rt data ''resultType'') (\<lambda>result_type.
          and_then (py_getitem rt data ''result'') (\<lambda>result.
            Inr (JObj [(''resultType'', result_type),
                       (''result'', result),
                       (''success'', JBool True)])))), w1))"

text \<open>
  The loop: the state is the \<^verbatim>\<open>results\<close> dict, the \<^verbatim>\<open>errors\<close> dict and the outside
  world. An assignment to a key of a dict replaces the value of a key that is there and
  appends a new key.
\<close>

fun fanout_loop ::
  "'w runtime \<Rightarrow> PrometheusConfig \<Rightarrow> (string \<times> string) list \<Rightarrow> PrometheusTenant list
     \<Rightarrow> (string \<times> json) list \<times> (string \<times> json) list \<times> 'w
     \<Rightarrow> (string \<times> json) list \<times> (string \<times> json) list \<times> 'w" where
  "fanout_loop rt config params [] s = s"
| "fanout_loop rt config params (tenant # ts) (res, errs, w) =
     (case query_tenant rt config params tenant w of
        (Inr entry, w1) \<Rightarrow>
          fanout_loop rt config params ts (AList.update (name tenant) entry res, errs, w1)
      | (Inl e, w1) \<Rightarrow>
          fanout_loop rt config params ts
            (res,
             AList.update (name tenant)
               (JObj [(''error'', JStr (str_exception rt e)), (''success'', JBool False)]) errs,
             w1))"

text \<open>\<^verbatim>\<open>execute_query_all_tenants\<close>.\<close>

definition execute_query_all_tenants ::
  "'w runtime \<Rightarrow> PrometheusConfig \<Rightarrow> string \<Rightarrow> string option \<Rightarrow> 'w \<Rightarrow> json \<times> 'w" where
  "execute_query_all_tenants rt config query time w =
     (let (res, errs, w1) = fanout_loop rt config (query_params query time) (tenants config)
                              ([], [], w)
      in (JObj [(''query'', JStr query),
                (''time'', json_of_opt time),
                (''results'', JObj res),
                (''errors'', JObj errs),
                (''successful_tenants'', JInt (int (dict_len res))),
                (''failed_tenants'', JInt (int (dict_len errs))),
                (''total_tenants'', JInt (int (length (tenants config))))], w1))"

section \<open>Example tenants, configurations and a runtime\<close>

text \<open>
  The concrete inputs at which the theorems below are instantiated. Tenant \<open>a\<close> has no
  credentials, \<open>b\<close> has a token as well as a username and a password, \<open>c\<close> has a username and
  a password, \<open>d\<close> a username only; \<open>tenant_a2\<close> has the name of \<open>tenant_a\<close> and another URL.
\<close>

definition tenant_a :: PrometheusTenant where
  "tenant_a = \<lparr>name = ''a'', url = ''http://a/'', username = None, password = None,
                token = None, org_id = None\<rparr>"

definition tenant_a2 :: PrometheusTenant where
  "tenant_a2 = \<lparr>name = ''a'', url = ''http://a2'', username = None, password = None,
                 token = None, org_id = None\<rparr>"

definition tenant_b :: PrometheusTenant where
  "tenant_b = \<lparr>name = ''b'', url = ''http://b'', username = Some ''u'', password = Some ''p'',
                token = Some ''tok'', org_id = Some ''org''\<rparr>"

definition tenant_c :: PrometheusTenant where
  "tenant_c = \<lparr>name = ''c'', url = ''http://c'', username = Some ''u'', password = Some ''p'',
                token = None, org_id = None\<rparr>"

definition tenant_d :: PrometheusTenant where
  "tenant_d = \<lparr>name = ''d'', url = ''http://d'', username = Some ''u'', password = None,
                token = None, org_id = None\<rparr>"

definition example_config :: PrometheusConfig where
  "example_config = \<lparr>tenants = [tenant_a, tenant_b, tenant_c], default_tenant = Some ''a''\<rparr>"

definition duplicate_config :: PrometheusConfig where
  "duplicate_config = \<lparr>tenants = [tenant_a, tenant_a2], default_tenant = Some ''a''\<rparr>"

text \<open>
  A runtime whose outside world is the list of the URLs requested so far. The backend of
  tenant \<open>b\<close> answers every instant query with an error envelope, every other request is
  answered with an empty vector. \<^verbatim>\<open>repr\<close> puts a string between apostrophes, which is what
  Python does for the names used here.
\<close>

definition error_envelope :: json where
  "error_envelope = JObj [(''status'', JStr ''error''), (''error'', JStr ''bad query'')]"

definition success_envelope :: json where
  "success_envelope =
     JObj [(''status'', JStr ''success''),
           (''data'', JObj [(''resultType'', JStr ''vector''), (''result'', JArr [])])]"

definition example_runtime :: "string list runtime" where
  "example_runtime =
     \<lparr>requests_get = (\<lambda>request w.
          (if get_url request = ''http://b/api/v1/query'' then Inr error_envelope
           else Inr success_envelope, w @ [get_url request])),
      repr_str = (\<lambda>s. apostrophe @ s @ apostrophe),
      str_json = (\<lambda>v. ''?''),
      type_error_msg = (\<lambda>operation v. ''unsupported operand'')\<rparr>"


section \<open>Lemmas on the registry and on the loop over the tenants\<close>

lemmas example_defs = example_config_def tenant_a_def tenant_b_def tenant_c_def

lemmas runtime_defs = example_runtime_def error_envelope_def success_envelope_def

lemmas request_defs = make_prometheus_request_def send_request_def build_request_def
  resolve_name_def get_tenant_def check_envelope_def get_prometheus_auth_def rstrip_slash_def

lemmas fanout_defs = execute_query_all_tenants_def query_tenant_def query_params_def dict_len_def

lemma find_tenant_None: "find_tenant ts (Some n) = None \<longleftrightarrow> n \<notin> name ` set ts"
  by (induction ts) auto

lemma find_tenant_name: "find_tenant ts (Some n) = Some t \<Longrightarrow> n \<in> name ` set ts"
  by (induction ts) (auto split: if_splits)

lemma find_tenant_Some: "find_tenant ts n = Some t \<Longrightarrow> t \<in> set ts \<and> Some (name t) = n"
  by (induction ts) (auto split: if_splits)

lemma length_update_new: "k \<notin> fst ` set al \<Longrightarrow> length (AList.update k v al) = Suc (length al)"
  by (induction al) auto

lemma dict_len_distinct: "distinct (map fst kvs) \<Longrightarrow> dict_len kvs = length kvs"
  by (simp add: dict_len_def distinct_remdups_id)


text \<open>The keys of the two dicts after the loop: those before it and the names of the tenants.\<close>

lemma fanout_loop_keys:
  "fanout_loop rt config params ts (res, errs, w) = (res1, errs1, w1) \<Longrightarrow>
     fst ` set res1 \<union> fst ` set errs1 = fst ` set res \<union> fst ` set errs \<union> name ` set ts
     \<and> fst ` set res \<subseteq> fst ` set res1 \<and> fst ` set errs \<subseteq> fst ` set errs1"
proof (induction ts arbitrary: res errs w)
  case Nil
  then show ?case by simp
next
  case (Cons t ts)
  obtain r w0 where q: "query_tenant rt config params t w = (r, w0)"
    by (cases "query_tenant rt config params t w")
  show ?case
  proof (cases r)
    case (Inl e)
    with Cons.prems q have
      "fanout_loop rt config params ts
         (res, AList.update (name t)
                 (JObj [(''error'', JStr (str_exception rt e)), (''success'', JBool False)]) errs,
          w0) = (res1, errs1, w1)"
      by simp
    from Cons.IH [OF this] show ?thesis
      by (auto simp: AList.dom_update)
  next
    case (Inr entry)
    with Cons.prems q have
      "fanout_loop rt config params ts (AList.update (name t) entry res, errs, w0)
         = (res1, errs1, w1)"
      by simp
    from Cons.IH [OF this] show ?thesis
      by (auto simp: AList.dom_update)
  qed
qed

text \<open>
  When the tenants have distinct names that are not yet keys, each of them adds one key to
  one of the two dicts, and no key is in both.
\<close>

lemma fanout_loop_distinct:
  "distinct (map name ts) \<Longrightarrow>
   name ` set ts \<inter> (fst ` set res \<union> fst ` set errs) = {} \<Longrightarrow>
   fst ` set res \<inter> fst ` set errs = {} \<Longrightarrow>
   distinct (map fst res) \<Longrightarrow> distinct (map fst errs) \<Longrightarrow>
   fanout_loop rt config params ts (res, errs, w) = (res1, errs1, w1) \<Longrightarrow>
     fst ` set res1 \<inter> fst ` set errs1 = {}
     \<and> length res1 + length errs1 = length res + length errs + length ts
     \<and> distinct (map fst res1) \<and> distinct (map fst errs1)"
proof (induction ts arbitrary: res errs w)
  case Nil
  then show ?case by simp
next
  case (Cons t ts)
  obtain r w0 where q: "query_tenant rt config params t w = (r, w0)"
    by (cases "query_tenant rt config params t w")
  from Cons.prems have new: "name t \<notin> fst ` set res" "name t \<notin> fst ` set errs"
    and later: "name t \<notin> name ` set ts" and dts: "distinct (map name ts)"
    by auto
  show ?case
  proof (cases r)
    case (Inl e)
    let ?entry = "JObj [(''error'', JStr (str_exception rt e)), (''success'', JBool False)]"
    let ?errs = "AList.update (name t) ?entry errs"
    from Cons.prems(6) q Inl have run:
      "fanout_loop rt config params ts (res, ?errs, w0) = (res1, errs1, w1)"
      by simp
    have a: "name ` set ts \<inter> (fst ` set res \<union> fst ` set ?errs) = {}"
      using Cons.prems(2) later by (auto simp: AList.dom_update)
    have b: "fst ` set res \<inter> fst ` set ?errs = {}"
      using Cons.prems(3) new by (auto simp: AList.dom_update)
    have c: "distinct (map fst ?errs)"
      using Cons.prems(5) by (rule AList.distinct_update)
    from Cons.IH [OF dts a b Cons.prems(4) c run] length_update_new [OF new(2)]
    show ?thesis by simp
  next
    case (Inr entry)
    let ?res = "AList.update (name t) entry res"
    from Cons.prems(6) q Inr have run:
      "fanout_loop rt config params ts (?res, errs, w0) = (res1, errs1, w1)"
      by simp
    have a: "name ` set ts \<inter> (fst ` set ?res \<union> fst ` set errs) = {}"
      using Cons.prems(2) later by (auto simp: AList.dom_update)
    have b: "fst ` set ?res \<inter> fst ` set errs = {}"
      using Cons.prems(3) new by (auto simp: AList.dom_update)
    have c: "distinct (map fst ?res)"
      using Cons.prems(4) by (rule AList.distinct_update)
    from Cons.IH [OF dts a b c Cons.prems(5) run] length_update_new [OF new(1)]
    show ?thesis by simp
  qed
qed



text \<open>The tenant that a lookup finds is the first of its name.\<close>

lemma find_tenant_first:
  "find_tenant ts (Some n) = Some t \<Longrightarrow> \<exists>pre post. ts = pre @ t # post \<and> n \<notin> name ` set pre"
proof (induction ts)
  case Nil
  then show ?case by simp
next
  case (Cons x xs)
  show ?case
  proof (cases "name x = n")
    case True
    with Cons.prems have "x = t" by simp
    then have "x # xs = [] @ t # xs \<and> n \<notin> name ` set []" by simp
    then show ?thesis by blast
  next
    case False
    with Cons.prems have "find_tenant xs (Some n) = Some t" by simp
    from Cons.IH [OF this] obtain pre post where "xs = pre @ t # post" "n \<notin> name ` set pre"
      by blast
    with False have "x # xs = (x # pre) @ t # post \<and> n \<notin> name ` set (x # pre)" by auto
    then show ?thesis by blast
  qed
qed

lemma find_tenant_distinct:
  "distinct (map name ts) \<Longrightarrow> t \<in> set ts \<Longrightarrow> find_tenant ts (Some (name t)) = Some t"
  by (induction ts) (auto simp: rev_image_eqI)

text \<open>What a successful \<^verbatim>\<open>__post_init__\<close> leaves: the tenants as given, and a default.\<close>

lemma config_post_init_Inr:
  "config_post_init config0 = Inr config \<Longrightarrow>
     \<exists>t0 ts. tenants config0 = t0 # ts \<and> tenants config = t0 # ts
       \<and> default_tenant config
           = (if truthy (default_tenant config0) then default_tenant config0 else Some (name t0))
       \<and> (\<exists>d. default_tenant config = Some d \<and> d \<in> name ` set (t0 # ts))"
  apply (cases "tenants config0"; cases "default_tenant config0")
  apply (auto simp: config_post_init_def get_tenant_def Let_def find_tenant_None
              split: if_splits dest: find_tenant_name)
  done

lemma config_post_init_default:
  assumes "config_post_init config0 = Inr config"
  shows "\<exists>d t. default_tenant config = Some d \<and> find_tenant (tenants config) (Some d) = Some t"
proof -
  from config_post_init_Inr [OF assms] obtain t0 ts d where
    ts: "tenants config = t0 # ts"
    and d: "default_tenant config = Some d" "d \<in> name ` set (t0 # ts)"
    by blast
  from d(2) have "find_tenant (tenants config) (Some d) \<noteq> None"
    unfolding ts find_tenant_None by simp
  with d(1) show ?thesis by blast
qed

lemma resolved_default:
  assumes "config_post_init config0 = Inr config"
  shows "\<exists>d t. default_tenant config = Some d \<and> get_tenant config (Some d) = Some t \<and> name t = d"
proof -
  from config_post_init_default [OF assms] obtain d t where
    d: "default_tenant config = Some d" and t: "find_tenant (tenants config) (Some d) = Some t"
    by blast
  from d t find_tenant_Some [OF t] show ?thesis
    by (simp add: get_tenant_def)
qed

text \<open>
  No subscript and no \<^verbatim>\<open>len\<close> raises a \<^verbatim>\<open>ValueError\<close>, and the only \<^verbatim>\<open>ValueError\<close> whose
  message starts with \<open>T\<close> that a request gives back is one that the HTTP library has raised.
\<close>

lemma py_getitem_ValueError: "py_getitem rt v k \<noteq> Inl (ValueError m)"
  by (cases v) (auto split: option.splits)

lemma py_len_ValueError: "py_len rt v \<noteq> Inl (ValueError m)"
  by (cases v) auto

lemma and_then_ValueError:
  "and_then r f = Inl (ValueError x)
     \<longleftrightarrow> r = Inl (ValueError x) \<or> (\<exists>a. r = Inr a \<and> f a = Inl (ValueError x))"
  by (cases r) auto

lemma check_envelope_Tenant:
  "check_envelope rt tenant_name body \<noteq> Inl (ValueError (CHR ''T'' # m))"
  by (auto simp: check_envelope_def and_then_ValueError py_getitem_ValueError)

lemma handle_exception_Tenant:
  "handle_exception tenant_name e = ValueError (CHR ''T'' # m) \<Longrightarrow> e = ValueError (CHR ''T'' # m)"
  by (cases e) auto

lemma send_request_Tenant:
  assumes "fst (requests_get rt (build_request t endpoint params) w) \<noteq> Inl (ValueError (''Tenant '' @ m))"
  shows "fst (send_request rt tenant_name t endpoint params w) \<noteq> Inl (ValueError (''Tenant '' @ m))"
proof -
  obtain r w1 where q: "requests_get rt (build_request t endpoint params) w = (r, w1)"
    by (cases "requests_get rt (build_request t endpoint params) w")
  show ?thesis
  proof (cases r)
    case (Inl e)
    with assms q show ?thesis
      by (auto simp: send_request_def dest: handle_exception_Tenant)
  next
    case (Inr body)
    with q show ?thesis
      using check_envelope_Tenant [of rt tenant_name body]
      by (auto simp: send_request_def split: sum.splits dest: handle_exception_Tenant)
  qed
qed

section \<open>The query across all tenants: counts and outcomes\<close>

text \<open>
  C1 does not hold for every registry: the configuration accepts two tenants of one name,
  the two dicts are keyed by name, and a name is counted once. With the tenants \<open>tenant_a\<close> and
  \<open>tenant_a2\<close>, both named \<open>a\<close>, and a backend that answers every request, the result has
  \<^verbatim>\<open>successful_tenants\<close> 1, \<^verbatim>\<open>failed_tenants\<close> 0 and \<^verbatim>\<open>total_tenants\<close> 2.
\<close>

theorem fanout_duplicate_names:
  "config_post_init \<lparr>tenants = [tenant_a, tenant_a2], default_tenant = None\<rparr> = Inr duplicate_config
   \<and> py_getitem example_runtime
        (fst (execute_query_all_tenants example_runtime duplicate_config ''up'' None []))
        ''successful_tenants'' = Inr (JInt 1)
   \<and> py_getitem example_runtime
        (fst (execute_query_all_tenants example_runtime duplicate_config ''up'' None []))
        ''failed_tenants'' = Inr (JInt 0)
   \<and> py_getitem example_runtime
        (fst (execute_query_all_tenants example_runtime duplicate_config ''up'' None []))
        ''total_tenants'' = Inr (JInt 2)"
  by (simp add: duplicate_config_def tenant_a_def tenant_a2_def config_post_init_def
        runtime_defs request_defs fanout_defs)

text \<open>
  C1, for a registry whose tenant names are pairwise distinct: the result of
  \<^verbatim>\<open>execute_query_all_tenants\<close> over \<open>N\<close> tenants has
  \<^verbatim>\<open>successful_tenants + failed_tenants = total_tenants = N\<close>, and every tenant name is a key
  of exactly one of \<^verbatim>\<open>results\<close> and \<^verbatim>\<open>errors\<close>, whatever the backends answer.
\<close>

theorem fanout_counts:
  assumes "distinct (list_tenant_names config)"
    and "execute_query_all_tenants rt config query time w = (r, w1)"
  shows "\<exists>res errs.
           py_getitem rt r ''results'' = Inr (JObj res)
           \<and> py_getitem rt r ''errors'' = Inr (JObj errs)
           \<and> py_getitem rt r ''successful_tenants'' = Inr (JInt (int (dict_len res)))
           \<and> py_getitem rt r ''failed_tenants'' = Inr (JInt (int (dict_len errs)))
           \<and> py_getitem rt r ''total_tenants'' = Inr (JInt (int (length (tenants config))))
           \<and> dict_len res + dict_len errs = length (tenants config)
           \<and> (\<forall>n \<in> set (list_tenant_names config). (n \<in> fst ` set res) \<noteq> (n \<in> fst ` set errs))"
proof -
  obtain res errs w2 where run:
    "fanout_loop rt config (query_params query time) (tenants config) ([], [], w) = (res, errs, w2)"
    by (cases "fanout_loop rt config (query_params query time) (tenants config) ([], [], w)")
  from assms(2) run have r:
    "r = JObj [(''query'', JStr query), (''time'', json_of_opt time), (''results'', JObj res),
               (''errors'', JObj errs), (''successful_tenants'', JInt (int (dict_len res))),
               (''failed_tenants'', JInt (int (dict_len errs))),
               (''total_tenants'', JInt (int (length (tenants config))))]"
    by (simp add: execute_query_all_tenants_def)
  from assms(1) have d: "distinct (map name (tenants config))"
    by (simp add: list_tenant_names_def)
  from fanout_loop_distinct [OF d _ _ _ _ run]
  have disj: "fst ` set res \<inter> fst ` set errs = {}"
    and len: "length res + length errs = length (tenants config)"
    and dr: "distinct (map fst res)" and de: "distinct (map fst errs)"
    by simp_all
  from fanout_loop_keys [OF run]
  have keys: "fst ` set res \<union> fst ` set errs = name ` set (tenants config)"
    by simp
  have part: "\<forall>n \<in> set (list_tenant_names config). (n \<in> fst ` set res) \<noteq> (n \<in> fst ` set errs)"
    using disj keys unfolding list_tenant_names_def by auto
  show ?thesis
    using r len part by (simp add: dict_len_distinct [OF dr] dict_len_distinct [OF de])
qed

text \<open>
  The three tenants \<open>a\<close>, \<open>b\<close>, \<open>c\<close> with the backend of \<open>b\<close> failing: two successes, one
  failure, three tenants.
\<close>

theorem fanout_counts_witness:
  "distinct (list_tenant_names example_config)
   \<and> py_getitem example_runtime
        (fst (execute_query_all_tenants example_runtime example_config ''up'' None []))
        ''successful_tenants'' = Inr (JInt 2)
   \<and> py_getitem example_runtime
        (fst (execute_query_all_tenants example_runtime example_config ''up'' None []))
        ''failed_tenants'' = Inr (JInt 1)
   \<and> py_getitem example_runtime
        (fst (execute_query_all_tenants example_runtime example_config ''up'' None []))
        ''total_tenants'' = Inr (JInt 3)
   \<and> (\<exists>res errs.
         py_getitem example_runtime
           (fst (execute_query_all_tenants example_runtime example_config ''up'' None []))
           ''results'' = Inr (JObj res)
         \<and> py_getitem example_runtime
           (fst (execute_query_all_tenants example_runtime example_config ''up'' None []))
           ''errors'' = Inr (JObj errs)
         \<and> dict_len res + dict_len errs = length (tenants example_config)
         \<and> (\<forall>n \<in> set (list_tenant_names example_config).
               (n \<in> fst ` set res) \<noteq> (n \<in> fst ` set errs)))"
proof -
  let ?call = "execute_query_all_tenants example_runtime example_config ''up'' None []"
  have h: "distinct (list_tenant_names example_config)"
    by (simp add: list_tenant_names_def example_defs)
  have c: "?call = (fst ?call, snd ?call)" by simp
  have n: "py_getitem example_runtime (fst ?call) ''successful_tenants'' = Inr (JInt 2)
           \<and> py_getitem example_runtime (fst ?call) ''failed_tenants'' = Inr (JInt 1)
           \<and> py_getitem example_runtime (fst ?call) ''total_tenants'' = Inr (JInt 3)"
    by (simp add: example_defs runtime_defs request_defs fanout_defs)
  from fanout_counts [OF h c] have
    "\<exists>res errs.
       py_getitem example_runtime (fst ?call) ''results'' = Inr (JObj res)
       \<and> py_getitem example_runtime (fst ?call) ''errors'' = Inr (JObj errs)
       \<and> dict_len res + dict_len errs = length (tenants example_config)
       \<and> (\<forall>n \<in> set (list_tenant_names example_config).
             (n \<in> fst ` set res) \<noteq> (n \<in> fst ` set errs))"
    by blast
  with h n show ?thesis by blast
qed




section \<open>Authentication\<close>

text \<open>
  C3: \<^verbatim>\<open>get_prometheus_auth\<close> follows the precedence token, then username and password, then
  nothing, where a field is present when it is set and not the empty string. A tenant with a
  token gets the header \<^verbatim>\<open>Authorization: Bearer <token>\<close>, whatever its username and
  password are, and its request carries no basic credentials; without a token, a username
  and a password give HTTP Basic credentials; otherwise there are no credentials.
\<close>

theorem auth_precedence:
  "(token t = Some tok \<and> tok \<noteq> [] \<longrightarrow>
      get_prometheus_auth t = AuthHeaders [(''Authorization'', ''Bearer '' @ tok)]
      \<and> get_auth (build_request t endpoint params) = NoAuth)
   \<and> (\<not> truthy (token t) \<and> username t = Some u \<and> u \<noteq> [] \<and> password t = Some p \<and> p \<noteq> [] \<longrightarrow>
      get_prometheus_auth t = HTTPBasicAuth u p)
   \<and> (\<not> truthy (token t) \<and> \<not> (truthy (username t) \<and> truthy (password t)) \<longrightarrow>
      get_prometheus_auth t = NoAuth)"
  by (auto simp: get_prometheus_auth_def build_request_def Let_def)

text \<open>Tenant \<open>b\<close> has all three fields, \<open>c\<close> a username and a password, \<open>a\<close> none.\<close>

theorem auth_precedence_witness:
  "token tenant_b = Some ''tok'' \<and> username tenant_b = Some ''u'' \<and> password tenant_b = Some ''p''
   \<and> get_prometheus_auth tenant_b = AuthHeaders [(''Authorization'', ''Bearer tok'')]
   \<and> get_auth (build_request tenant_b ''query'' None) = NoAuth
   \<and> get_prometheus_auth tenant_c = HTTPBasicAuth ''u'' ''p''
   \<and> get_prometheus_auth tenant_a = NoAuth"
  using auth_precedence [of tenant_b "''tok''" "''query''" None "''u''" "''p''"]
        auth_precedence [of tenant_c "''tok''" "''query''" None "''u''" "''p''"]
        auth_precedence [of tenant_a "''tok''" "''query''" None "''u''" "''p''"]
  by (simp add: tenant_a_def tenant_b_def tenant_c_def)

text \<open>
  C4: \<^verbatim>\<open>list_tenants\<close> computes \<^verbatim>\<open>has_auth\<close> from the username and the token alone. For
  tenant \<open>d\<close>, which has a username, no password and no token, \<^verbatim>\<open>has_auth\<close> is true, while
  \<^verbatim>\<open>get_prometheus_auth\<close> gives this tenant no credentials.
\<close>

theorem list_tenants_username_only:
  "list_tenants \<lparr>tenants = [tenant_d], default_tenant = Some ''d''\<rparr>
     = JObj [(''tenants'', JArr [JObj [(''name'', JStr ''d''), (''url'', JStr ''http://d''),
                                      (''has_auth'', JBool True), (''org_id'', JNull)]]),
             (''default_tenant'', JStr ''d''),
             (''total_count'', JInt 1)]
   \<and> username tenant_d = Some ''u'' \<and> password tenant_d = None \<and> token tenant_d = None
   \<and> get_prometheus_auth tenant_d = NoAuth"
  by (simp add: list_tenants_def tenant_info_def tenant_d_def py_or_def get_prometheus_auth_def)

section \<open>Resolving a tenant name\<close>

text \<open>
  C5: a request for a name that no tenant of the configuration has raises a \<^verbatim>\<open>ValueError\<close>
  whose message holds the requested name and the list of all the tenant names; no request
  is sent, and the outside world is as before. \<^verbatim>\<open>execute_query\<close> passes the exception on.
\<close>

theorem tenant_not_found:
  assumes "n \<notin> set (list_tenant_names config)"
  shows "make_prometheus_request rt config endpoint params (Some n) w
           = (Inl (ValueError (''Tenant '' @ apostrophe @ n @ apostrophe
                     @ '' not found. Available tenants: ''
                     @ str_list rt (list_tenant_names config))), w)
         \<and> (n \<noteq> [] \<longrightarrow> execute_query rt config query time (Some n) w
           = (Inl (ValueError (''Tenant '' @ apostrophe @ n @ apostrophe
                     @ '' not found. Available tenants: ''
                     @ str_list rt (list_tenant_names config))), w))"
proof -
  from assms have "get_tenant config (Some n) = None"
    by (simp add: get_tenant_def list_tenant_names_def find_tenant_None)
  then show ?thesis
    by (simp add: make_prometheus_request_def resolve_name_def execute_query_def py_or_def)
qed

theorem tenant_not_found_witness:
  "''x'' \<notin> set (list_tenant_names example_config)
   \<and> make_prometheus_request example_runtime example_config ''query'' None (Some ''x'') []
       = (Inl (ValueError ''Tenant 'x' not found. Available tenants: ['a', 'b', 'c']''), [])
   \<and> execute_query example_runtime example_config ''up'' None (Some ''x'') []
       = (Inl (ValueError ''Tenant 'x' not found. Available tenants: ['a', 'b', 'c']''), [])"
proof -
  have h: "''x'' \<notin> set (list_tenant_names example_config)"
    by (simp add: list_tenant_names_def example_defs)
  from tenant_not_found [OF h, of example_runtime "''query''" None "[]" "''up''" None] h
  show ?thesis
    by (simp add: list_tenant_names_def str_list_def example_defs runtime_defs)
qed

text \<open>
  C6 does not hold for every registry: a lookup returns the first tenant of a name, so the
  name of \<open>tenant_a2\<close>, which is in the configuration after \<open>tenant_a\<close> of the same name,
  resolves to \<open>tenant_a\<close>.
\<close>

theorem resolve_duplicate_name:
  "config_post_init \<lparr>tenants = [tenant_a, tenant_a2], default_tenant = None\<rparr> = Inr duplicate_config
   \<and> tenant_a2 \<in> set (tenants duplicate_config)
   \<and> get_tenant duplicate_config (resolve_name duplicate_config (Some (name tenant_a2)))
       = Some tenant_a
   \<and> tenant_a \<noteq> tenant_a2"
  by (simp add: config_post_init_def get_tenant_def resolve_name_def duplicate_config_def
        tenant_a_def tenant_a2_def)

text \<open>
  C6, as the code has it: for a configuration that \<^verbatim>\<open>__post_init__\<close> has accepted, a
  request without a tenant name resolves to the tenant whose name is the default; a name of
  the registry resolves to the first tenant of that name, in the order of the registry; when
  the names are pairwise distinct, the name of every tenant resolves to exactly that tenant;
  and a default that was not configured is the name of the first tenant.
\<close>

theorem registry_resolution:
  assumes "config_post_init config0 = Inr config"
  shows "(\<exists>t. get_tenant config (resolve_name config None) = Some t
              \<and> Some (name t) = default_tenant config \<and> t \<in> set (tenants config))
         \<and> (\<forall>n \<in> set (list_tenant_names config).
              \<exists>t pre post. get_tenant config (resolve_name config (Some n)) = Some t
                \<and> name t = n \<and> tenants config = pre @ t # post \<and> n \<notin> name ` set pre)
         \<and> (distinct (list_tenant_names config) \<longrightarrow>
              (\<forall>t \<in> set (tenants config).
                 get_tenant config (resolve_name config (Some (name t))) = Some t))
         \<and> (\<not> truthy (default_tenant config0) \<longrightarrow>
              (\<exists>t0 ts. tenants config0 = t0 # ts \<and> default_tenant config = Some (name t0)))"
proof -
  from config_post_init_Inr [OF assms] obtain t0 ts where
    ts: "tenants config0 = t0 # ts"
    and dflt: "default_tenant config
                 = (if truthy (default_tenant config0) then default_tenant config0
                    else Some (name t0))"
    by blast
  from config_post_init_default [OF assms] obtain d t where
    d: "default_tenant config = Some d" and t: "find_tenant (tenants config) (Some d) = Some t"
    by blast
  have 1: "\<exists>t. get_tenant config (resolve_name config None) = Some t
              \<and> Some (name t) = default_tenant config \<and> t \<in> set (tenants config)"
    using t find_tenant_Some [OF t] d by (simp add: get_tenant_def resolve_name_def)
  have 2: "\<forall>n \<in> set (list_tenant_names config).
              \<exists>t pre post. get_tenant config (resolve_name config (Some n)) = Some t
                \<and> name t = n \<and> tenants config = pre @ t # post \<and> n \<notin> name ` set pre"
  proof
    fix n assume "n \<in> set (list_tenant_names config)"
    then have "find_tenant (tenants config) (Some n) \<noteq> None"
      by (simp add: list_tenant_names_def find_tenant_None)
    then obtain u where u: "find_tenant (tenants config) (Some n) = Some u" by blast
    from find_tenant_first [OF u] find_tenant_Some [OF u] u
    show "\<exists>t pre post. get_tenant config (resolve_name config (Some n)) = Some t
                \<and> name t = n \<and> tenants config = pre @ t # post \<and> n \<notin> name ` set pre"
      by (auto simp: get_tenant_def resolve_name_def)
  qed
  have 3: "distinct (list_tenant_names config) \<longrightarrow>
              (\<forall>t \<in> set (tenants config).
                 get_tenant config (resolve_name config (Some (name t))) = Some t)"
    by (simp add: list_tenant_names_def get_tenant_def resolve_name_def find_tenant_distinct)
  have 4: "\<not> truthy (default_tenant config0) \<longrightarrow>
              (\<exists>t0 ts. tenants config0 = t0 # ts \<and> default_tenant config = Some (name t0))"
    using ts dflt by simp
  from 1 2 3 4 show ?thesis by blast
qed

theorem registry_resolution_witness:
  "config_post_init \<lparr>tenants = [tenant_a, tenant_b, tenant_c], default_tenant = None\<rparr>
     = Inr example_config
   \<and> distinct (list_tenant_names example_config)
   \<and> get_tenant example_config (resolve_name example_config None) = Some tenant_a
   \<and> get_tenant example_config (resolve_name example_config (Some (name tenant_b))) = Some tenant_b
   \<and> default_tenant example_config = Some (name tenant_a)"
proof -
  have h: "config_post_init \<lparr>tenants = [tenant_a, tenant_b, tenant_c], default_tenant = None\<rparr>
             = Inr example_config"
    by (simp add: config_post_init_def get_tenant_def example_defs)
  have d: "distinct (list_tenant_names example_config)"
    by (simp add: list_tenant_names_def example_defs)
  have m: "tenant_b \<in> set (tenants example_config)"
    by (simp add: example_config_def)
  from registry_resolution [OF h] d m
  have "get_tenant example_config (resolve_name example_config (Some (name tenant_b)))
          = Some tenant_b"
    by blast
  moreover have "get_tenant example_config (resolve_name example_config None) = Some tenant_a"
    by (simp add: get_tenant_def resolve_name_def example_defs)
  moreover have "default_tenant example_config = Some (name tenant_a)"
    by (simp add: example_defs)
  ultimately show ?thesis using h d by blast
qed

section \<open>The error envelope of the backend\<close>

text \<open>
  C7: when the tenant is found and the response is a JSON object whose \<^verbatim>\<open>status\<close> is not
  \<^verbatim>\<open>"success"\<close>, \<^verbatim>\<open>make_prometheus_request\<close> raises a \<^verbatim>\<open>ValueError\<close> whose message is
  \<^verbatim>\<open>Prometheus API error for tenant '<name>': <error>\<close>, where \<^verbatim>\<open><error>\<close> is the \<^verbatim>\<open>error\<close>
  field of the response, or \<^verbatim>\<open>Unknown error\<close> when there is none; \<^verbatim>\<open>execute_query\<close> raises
  the same exception. An \<^verbatim>\<open>error\<close> field that is a string is in the message as it is.
\<close>

theorem backend_error:
  assumes "get_tenant config (Some n) = Some t"
    and "requests_get rt (build_request t endpoint params) w = (Inr (JObj kvs), w1)"
    and "map_of kvs ''status'' = Some status"
    and "status \<noteq> JStr ''success''"
  shows "make_prometheus_request rt config endpoint params (Some n) w
           = (Inl (ValueError (''Prometheus API error for tenant '' @ apostrophe @ n @ apostrophe
                     @ '': '' @ (case map_of kvs ''error'' of
                                   None \<Rightarrow> ''Unknown error''
                                 | Some v \<Rightarrow> format_json rt v))), w1)
         \<and> (n \<noteq> [] \<and> endpoint = ''query'' \<and> params = Some (query_params query time) \<longrightarrow>
              execute_query rt config query time (Some n) w
                = (Inl (ValueError (''Prometheus API error for tenant '' @ apostrophe @ n
                          @ apostrophe @ '': '' @ (case map_of kvs ''error'' of
                                   None \<Rightarrow> ''Unknown error''
                                 | Some v \<Rightarrow> format_json rt v))), w1))
         \<and> (\<forall>m. map_of kvs ''error'' = Some (JStr m) \<longrightarrow>
              make_prometheus_request rt config endpoint params (Some n) w
                = (Inl (ValueError (''Prometheus API error for tenant '' @ apostrophe @ n
                          @ apostrophe @ '': '' @ m)), w1))"
  using assms
  by (auto simp: make_prometheus_request_def resolve_name_def send_request_def check_envelope_def
        execute_query_def py_or_def split: option.splits)

text \<open>The envelope \<^verbatim>\<open>{"status": "error", "error": "bad query"}\<close> for tenant \<open>b\<close>.\<close>

theorem backend_error_witness:
  "get_tenant example_config (Some ''b'') = Some tenant_b
   \<and> requests_get example_runtime (build_request tenant_b ''query'' (Some (query_params ''up'' None))) []
       = (Inr (JObj [(''status'', JStr ''error''), (''error'', JStr ''bad query'')]),
          [''http://b/api/v1/query''])
   \<and> execute_query example_runtime example_config ''up'' None (Some ''b'') []
       = (Inl (ValueError ''Prometheus API error for tenant 'b': bad query''),
          [''http://b/api/v1/query''])"
proof -
  have h1: "get_tenant example_config (Some ''b'') = Some tenant_b"
    by (simp add: get_tenant_def example_defs)
  have h2: "requests_get example_runtime
              (build_request tenant_b ''query'' (Some (query_params ''up'' None))) []
            = (Inr (JObj [(''status'', JStr ''error''), (''error'', JStr ''bad query'')]),
               [''http://b/api/v1/query''])"
    by (simp add: example_defs runtime_defs request_defs query_params_def)
  have h3: "map_of [(''status'', JStr ''error''), (''error'', JStr ''bad query'')] ''status''
              = Some (JStr ''error'')"
    by simp
  have h4: "JStr ''error'' \<noteq> JStr ''success''" by simp
  from backend_error [OF h1 h2 h3 h4, of "''up''" None] h1 h2
  show ?thesis by simp
qed

section \<open>Construction of the configuration\<close>

text \<open>
  C8 does not hold: \<^verbatim>\<open>__post_init__\<close> compares no two names. The tenants \<open>tenant_a\<close> and
  \<open>tenant_a2\<close> are both valid and both named \<open>a\<close>, and the configuration made of them is
  accepted.
\<close>

theorem duplicate_names_accepted:
  "tenant_post_init tenant_a = Inr tenant_a \<and> tenant_post_init tenant_a2 = Inr tenant_a2
   \<and> config_post_init \<lparr>tenants = [tenant_a, tenant_a2], default_tenant = None\<rparr>
       = Inr \<lparr>tenants = [tenant_a, tenant_a2], default_tenant = Some ''a''\<rparr>
   \<and> list_tenant_names \<lparr>tenants = [tenant_a, tenant_a2], default_tenant = Some ''a''\<rparr>
       = [''a'', ''a'']"
  by (simp add: tenant_post_init_def config_post_init_def get_tenant_def list_tenant_names_def
        tenant_a_def tenant_a2_def)

text \<open>
  C8, as the code has it: \<^verbatim>\<open>__post_init__\<close> accepts a configuration exactly when it has a
  tenant and its default, if one is configured, is the name of one of its tenants; whether
  two tenants have the same name plays no part. The accepted configuration has the tenants
  as they were given, and a default that is the name of one of them.
\<close>

theorem config_post_init_accepts:
  "((\<exists>c. config_post_init config = Inr c) \<longleftrightarrow>
      tenants config \<noteq> []
      \<and> (\<forall>d. default_tenant config = Some d \<and> d \<noteq> [] \<longrightarrow> d \<in> set (list_tenant_names config)))
   \<and> (\<forall>c. config_post_init config = Inr c \<longrightarrow>
        tenants c = tenants config
        \<and> (\<exists>d. default_tenant c = Some d \<and> d \<in> set (list_tenant_names c)))"
  apply (cases "tenants config"; cases "default_tenant config")
  apply (auto simp: config_post_init_def get_tenant_def list_tenant_names_def find_tenant_None Let_def
           split: list.splits if_splits dest: find_tenant_name)
  done

theorem config_post_init_accepts_witness:
  "tenants \<lparr>tenants = [tenant_a, tenant_a2], default_tenant = None\<rparr> \<noteq> []
   \<and> default_tenant \<lparr>tenants = [tenant_a, tenant_a2], default_tenant = None\<rparr> = None
   \<and> (\<exists>c. config_post_init \<lparr>tenants = [tenant_a, tenant_a2], default_tenant = None\<rparr> = Inr c)"
  using config_post_init_accepts [of "\<lparr>tenants = [tenant_a, tenant_a2], default_tenant = None\<rparr>"]
  by simp

text \<open>
  C9: \<^verbatim>\<open>__post_init__\<close> raises a \<^verbatim>\<open>ValueError\<close> for a configuration without tenants, and for
  one whose configured default, a name that is not empty, is the name of none of its
  tenants. The configuration is built when the module is loaded, and every handler reads
  it.
\<close>

theorem config_post_init_rejects:
  "(tenants config = [] \<longrightarrow>
      config_post_init config = Inl (ValueError ''At least one tenant must be configured''))
   \<and> (tenants config \<noteq> [] \<and> default_tenant config = Some d \<and> d \<noteq> []
        \<and> d \<notin> set (list_tenant_names config) \<longrightarrow>
      config_post_init config =
        Inl (ValueError (''Default tenant '' @ apostrophe @ d @ apostrophe
                         @ '' not found in tenant list'')))"
  by (auto simp: config_post_init_def get_tenant_def list_tenant_names_def find_tenant_None
           split: list.splits dest: find_tenant_name)

theorem config_post_init_rejects_witness:
  "config_post_init \<lparr>tenants = [], default_tenant = Some ''a''\<rparr>
     = Inl (ValueError ''At least one tenant must be configured'')
   \<and> ''x'' \<notin> set (list_tenant_names \<lparr>tenants = [tenant_a, tenant_b], default_tenant = Some ''x''\<rparr>)
   \<and> config_post_init \<lparr>tenants = [tenant_a, tenant_b], default_tenant = Some ''x''\<rparr>
     = Inl (ValueError ''Default tenant 'x' not found in tenant list'')"
  using config_post_init_rejects [of "\<lparr>tenants = [], default_tenant = Some ''a''\<rparr>" "''a''"]
        config_post_init_rejects
          [of "\<lparr>tenants = [tenant_a, tenant_b], default_tenant = Some ''x''\<rparr>" "''x''"]
  by (simp add: list_tenant_names_def tenant_a_def tenant_b_def)

section \<open>The empty tenant name at the handlers\<close>

text \<open>
  C10: each of the five handlers with a tenant parameter gives, for the empty string, what
  it gives for no tenant. For a configuration that \<^verbatim>\<open>__post_init__\<close> has accepted, the name
  that the handler passes on is then the default \<open>d\<close>, a tenant \<open>t\<close> of that name is found, and
  each handler gives what it builds from the answer to the request sent for \<open>t\<close>, with \<open>d\<close> as
  the \<^verbatim>\<open>tenant\<close> of its result. The branch that raises the tenant-not-found error is not
  taken: a handler raises a \<^verbatim>\<open>ValueError\<close> whose message starts with \<^verbatim>\<open>Tenant\<close> only when the
  HTTP library itself has raised it.
\<close>

theorem empty_tenant_is_default:
  assumes "config_post_init config0 = Inr config"
  shows "(execute_query rt config query time (Some []) w
            = execute_query rt config query time None w
          \<and> execute_range_query rt config query start end_time step (Some []) w
              = execute_range_query rt config query start end_time step None w
          \<and> list_metrics rt config (Some []) w = list_metrics rt config None w
          \<and> get_metric_metadata rt config metric (Some []) w
              = get_metric_metadata rt config metric None w
          \<and> get_targets rt config (Some []) w = get_targets rt config None w)
         \<and> (\<exists>d t. py_or (Some []) (default_tenant config) = Some d
               \<and> get_tenant config (Some d) = Some t \<and> name t = d
               \<and> (\<forall>endpoint params.
                     make_prometheus_request rt config endpoint params
                       (py_or (Some []) (default_tenant config)) w
                     = send_request rt (Some d) t endpoint params w)
               \<and> execute_query rt config query time (Some []) w
                   = (let (r, w1) = send_request rt (Some d) t ''query''
                                      (Some (query_params query time)) w
                      in (and_then r (\<lambda>data.
                          and_then (py_getitem rt data ''resultType'') (\<lambda>result_type.
                          and_then (py_getitem rt data ''result'') (\<lambda>result.
                            Inr (JObj [(''resultType'', result_type),
                                       (''result'', result),
                                       (''tenant'', JStr d)])))), w1))
               \<and> execute_range_query rt config query start end_time step (Some []) w
                   = (let (r, w1) = send_request rt (Some d) t ''query_range''
                                      (Some [(''query'', query), (''start'', start),
                                             (''end'', end_time), (''step'', step)]) w
                      in (and_then r (\<lambda>data.
                          and_then (py_getitem rt data ''resultType'') (\<lambda>result_type.
                          and_then (py_getitem rt data ''result'') (\<lambda>result.
                            Inr (JObj [(''resultType'', result_type),
                                       (''result'', result),
                                       (''tenant'', JStr d)])))), w1))
               \<and> list_metrics rt config (Some []) w
                   = (let (r, w1) = send_request rt (Some d) t ''label/__name__/values'' None w
                      in (and_then r (\<lambda>data.
                          and_then (py_len rt data) (\<lambda>n.
                            Inr (JObj [(''metrics'', data),
                                       (''tenant'', JStr d),
                                       (''count'', JInt (int n))]))), w1))
               \<and> get_metric_metadata rt config metric (Some []) w
                   = (let (r, w1) = send_request rt (Some d) t ''metadata''
                                      (Some [(''metric'', metric)]) w
                      in (and_then r (\<lambda>data.
                          and_then (py_getitem rt data ''metadata'') (\<lambda>metadata.
                          and_then (py_len rt metadata) (\<lambda>n.
                            Inr (JObj [(''metadata'', metadata),
                                       (''metric'', JStr metric),
                                       (''tenant'', JStr d),
                                       (''count'', JInt (int n))])))), w1))
               \<and> get_targets rt config (Some []) w
                   = (let (r, w1) = send_request rt (Some d) t ''targets'' None w
                      in (and_then r (\<lambda>data.
                          and_then (py_getitem rt data ''activeTargets'') (\<lambda>active.
                          and_then (py_getitem rt data ''droppedTargets'') (\<lambda>dropped.
                          and_then (py_len rt active) (\<lambda>na.
                          and_then (py_len rt dropped) (\<lambda>nd.
                            Inr (JObj [(''activeTargets'', active),
                                       (''droppedTargets'', dropped),
                                       (''tenant'', JStr d),
                                       (''active_count'', JInt (int na)),
                                       (''dropped_count'', JInt (int nd))])))))), w1))
               \<and> (\<forall>m.
                    (fst (requests_get rt (build_request t ''query''
                            (Some (query_params query time))) w)
                       \<noteq> Inl (ValueError (''Tenant '' @ m))
                     \<longrightarrow> fst (execute_query rt config query time (Some []) w)
                           \<noteq> Inl (ValueError (''Tenant '' @ m)))
                  \<and> (fst (requests_get rt (build_request t ''query_range''
                            (Some [(''query'', query), (''start'', start),
                                   (''end'', end_time), (''step'', step)])) w)
                       \<noteq> Inl (ValueError (''Tenant '' @ m))
                     \<longrightarrow> fst (execute_range_query rt config query start end_time step (Some []) w)
                           \<noteq> Inl (ValueError (''Tenant '' @ m)))
                  \<and> (fst (requests_get rt (build_request t ''label/__name__/values'' None) w)
                       \<noteq> Inl (ValueError (''Tenant '' @ m))
                     \<longrightarrow> fst (list_metrics rt config (Some []) w)
                           \<noteq> Inl (ValueError (''Tenant '' @ m)))
                  \<and> (fst (requests_get rt (build_request t ''metadata''
                            (Some [(''metric'', metric)])) w)
                       \<noteq> Inl (ValueError (''Tenant '' @ m))
                     \<longrightarrow> fst (get_metric_metadata rt config metric (Some []) w)
                           \<noteq> Inl (ValueError (''Tenant '' @ m)))
                  \<and> (fst (requests_get rt (build_request t ''targets'' None) w)
                       \<noteq> Inl (ValueError (''Tenant '' @ m))
                     \<longrightarrow> fst (get_targets rt config (Some []) w)
                           \<noteq> Inl (ValueError (''Tenant '' @ m)))))"
proof -
  have same: "py_or (Some []) (default_tenant config) = py_or None (default_tenant config)"
    by (simp add: py_or_def)
  have eqs: "execute_query rt config query time (Some []) w
            = execute_query rt config query time None w
          \<and> execute_range_query rt config query start end_time step (Some []) w
              = execute_range_query rt config query start end_time step None w
          \<and> list_metrics rt config (Some []) w = list_metrics rt config None w
          \<and> get_metric_metadata rt config metric (Some []) w
              = get_metric_metadata rt config metric None w
          \<and> get_targets rt config (Some []) w = get_targets rt config None w"
    unfolding execute_query_def execute_range_query_def list_metrics_def
      get_metric_metadata_def get_targets_def same
    by simp
  from resolved_default [OF assms] obtain d t where
    d: "default_tenant config = Some d" and t: "get_tenant config (Some d) = Some t" "name t = d"
    by blast
  from d have sub: "py_or (Some []) (default_tenant config) = Some d"
    by (simp add: py_or_def)
  from t have req: "\<And>endpoint params.
                make_prometheus_request rt config endpoint params (Some d) w
                  = send_request rt (Some d) t endpoint params w"
    by (simp add: make_prometheus_request_def resolve_name_def)
  have q: "execute_query rt config query time (Some []) w
             = (let (r, w1) = send_request rt (Some d) t ''query''
                                (Some (query_params query time)) w
                in (and_then r (\<lambda>data.
                    and_then (py_getitem rt data ''resultType'') (\<lambda>result_type.
                    and_then (py_getitem rt data ''result'') (\<lambda>result.
                      Inr (JObj [(''resultType'', result_type),
                                 (''result'', result),
                                 (''tenant'', JStr d)])))), w1))"
    by (simp add: execute_query_def sub req)
  have rq: "execute_range_query rt config query start end_time step (Some []) w
             = (let (r, w1) = send_request rt (Some d) t ''query_range''
                                (Some [(''query'', query), (''start'', start),
                                       (''end'', end_time), (''step'', step)]) w
                in (and_then r (\<lambda>data.
                    and_then (py_getitem rt data ''resultType'') (\<lambda>result_type.
                    and_then (py_getitem rt data ''result'') (\<lambda>result.
                      Inr (JObj [(''resultType'', result_type),
                                 (''result'', result),
                                 (''tenant'', JStr d)])))), w1))"
    by (simp add: execute_range_query_def sub req)
  have lm: "list_metrics rt config (Some []) w
             = (let (r, w1) = send_request rt (Some d) t ''label/__name__/values'' None w
                in (and_then r (\<lambda>data.
                    and_then (py_len rt data) (\<lambda>n.
                      Inr (JObj [(''metrics'', data),
                                 (''tenant'', JStr d),
                                 (''count'', JInt (int n))]))), w1))"
    by (simp add: list_metrics_def sub req)
  have mm: "get_metric_metadata rt config metric (Some []) w
             = (let (r, w1) = send_request rt (Some d) t ''metadata''
                                (Some [(''metric'', metric)]) w
                in (and_then r (\<lambda>data.
                    and_then (py_getitem rt data ''metadata'') (\<lambda>metadata.
                    and_then (py_len rt metadata) (\<lambda>n.
                      Inr (JObj [(''metadata'', metadata),
                                 (''metric'', JStr metric),
                                 (''tenant'', JStr d),
                                 (''count'', JInt (int n))])))), w1))"
    by (simp add: get_metric_metadata_def sub req)
  have gt: "get_targets rt config (Some []) w
             = (let (r, w1) = send_request rt (Some d) t ''targets'' None w
                in (and_then r (\<lambda>data.
                    and_then (py_getitem rt data ''activeTargets'') (\<lambda>active.
                    and_then (py_getitem rt data ''droppedTargets'') (\<lambda>dropped.
                    and_then (py_len rt active) (\<lambda>na.
                    and_then (py_len rt dropped) (\<lambda>nd.
                      Inr (JObj [(''activeTargets'', active),
                                 (''droppedTargets'', dropped),
                                 (''tenant'', JStr d),
                                 (''active_count'', JInt (int na)),
                                 (''dropped_count'', JInt (int nd))])))))), w1))"
    by (simp add: get_targets_def sub req)
  have nf: "\<forall>m.
       (fst (requests_get rt (build_request t ''query'' (Some (query_params query time))) w)
          \<noteq> Inl (ValueError (''Tenant '' @ m))
        \<longrightarrow> fst (execute_query rt config query time (Some []) w)
              \<noteq> Inl (ValueError (''Tenant '' @ m)))
     \<and> (fst (requests_get rt (build_request t ''query_range''
               (Some [(''query'', query), (''start'', start),
                      (''end'', end_time), (''step'', step)])) w)
          \<noteq> Inl (ValueError (''Tenant '' @ m))
        \<longrightarrow> fst (execute_range_query rt config query start end_time step (Some []) w)
              \<noteq> Inl (ValueError (''Tenant '' @ m)))
     \<and> (fst (requests_get rt (build_request t ''label/__name__/values'' None) w)
          \<noteq> Inl (ValueError (''Tenant '' @ m))
        \<longrightarrow> fst (list_metrics rt config (Some []) w)
              \<noteq> Inl (ValueError (''Tenant '' @ m)))
     \<and> (fst (requests_get rt (build_request t ''metadata'' (Some [(''metric'', metric)])) w)
          \<noteq> Inl (ValueError (''Tenant '' @ m))
        \<longrightarrow> fst (get_metric_metadata rt config metric (Some []) w)
              \<noteq> Inl (ValueError (''Tenant '' @ m)))
     \<and> (fst (requests_get rt (build_request t ''targets'' None) w)
          \<noteq> Inl (ValueError (''Tenant '' @ m))
        \<longrightarrow> fst (get_targets rt config (Some []) w)
              \<noteq> Inl (ValueError (''Tenant '' @ m)))"
  proof (intro allI conjI impI)
    fix m
    assume "fst (requests_get rt (build_request t ''query'' (Some (query_params query time))) w)
              \<noteq> Inl (ValueError (''Tenant '' @ m))"
    from send_request_Tenant [OF this, of "Some d"]
    show "fst (execute_query rt config query time (Some []) w)
            \<noteq> Inl (ValueError (''Tenant '' @ m))"
      unfolding q
      by (auto simp: and_then_ValueError py_getitem_ValueError py_len_ValueError
               split: prod.splits)
  next
    fix m
    assume "fst (requests_get rt (build_request t ''query_range''
               (Some [(''query'', query), (''start'', start),
                      (''end'', end_time), (''step'', step)])) w)
              \<noteq> Inl (ValueError (''Tenant '' @ m))"
    from send_request_Tenant [OF this, of "Some d"]
    show "fst (execute_range_query rt config query start end_time step (Some []) w)
            \<noteq> Inl (ValueError (''Tenant '' @ m))"
      unfolding rq
      by (auto simp: and_then_ValueError py_getitem_ValueError py_len_ValueError
               split: prod.splits)
  next
    fix m
    assume "fst (requests_get rt (build_request t ''label/__name__/values'' None) w)
              \<noteq> Inl (ValueError (''Tenant '' @ m))"
    from send_request_Tenant [OF this, of "Some d"]
    show "fst (list_metrics rt config (Some []) w) \<noteq> Inl (ValueError (''Tenant '' @ m))"
      unfolding lm
      by (auto simp: and_then_ValueError py_getitem_ValueError py_len_ValueError
               split: prod.splits)
  next
    fix m
    assume "fst (requests_get rt (build_request t ''metadata'' (Some [(''metric'', metric)])) w)
              \<noteq> Inl (ValueError (''Tenant '' @ m))"
    from send_request_Tenant [OF this, of "Some d"]
    show "fst (get_metric_metadata rt config metric (Some []) w)
            \<noteq> Inl (ValueError (''Tenant '' @ m))"
      unfolding mm
      by (auto simp: and_then_ValueError py_getitem_ValueError py_len_ValueError
               split: prod.splits)
  next
    fix m
    assume "fst (requests_get rt (build_request t ''targets'' None) w)
              \<noteq> Inl (ValueError (''Tenant '' @ m))"
    from send_request_Tenant [OF this, of "Some d"]
    show "fst (get_targets rt config (Some []) w) \<noteq> Inl (ValueError (''Tenant '' @ m))"
      unfolding gt
      by (auto simp: and_then_ValueError py_getitem_ValueError py_len_ValueError
               split: prod.splits)
  qed
  have mk: "\<forall>endpoint params.
              make_prometheus_request rt config endpoint params
                (py_or (Some []) (default_tenant config)) w
              = send_request rt (Some d) t endpoint params w"
    by (simp add: sub req)
  from eqs sub t mk q rq lm mm gt nf show ?thesis by blast
qed

text \<open>
  The instant query with the empty tenant name on the three tenants: the answer of tenant
  \<open>a\<close>, the default, and not the error for a tenant of the empty name.
\<close>

theorem empty_tenant_is_default_witness:
  "config_post_init \<lparr>tenants = [tenant_a, tenant_b, tenant_c], default_tenant = None\<rparr>
     = Inr example_config
   \<and> execute_query example_runtime example_config ''up'' None (Some []) []
       = execute_query example_runtime example_config ''up'' None None []
   \<and> execute_query example_runtime example_config ''up'' None (Some []) []
       = (Inr (JObj [(''resultType'', JStr ''vector''), (''result'', JArr []),
                     (''tenant'', JStr ''a'')]), [''http://a/api/v1/query''])
   \<and> fst (execute_query example_runtime example_config ''up'' None (Some []) [])
       \<noteq> Inl (ValueError (''Tenant '' @ apostrophe @ apostrophe
                 @ '' not found. Available tenants: ['a', 'b', 'c']''))"
proof -
  let ?m = "apostrophe @ apostrophe @ '' not found. Available tenants: ['a', 'b', 'c']''"
  have h: "config_post_init \<lparr>tenants = [tenant_a, tenant_b, tenant_c], default_tenant = None\<rparr>
             = Inr example_config"
    by (simp add: config_post_init_def get_tenant_def example_defs)
  have e: "execute_query example_runtime example_config ''up'' None None []
       = (Inr (JObj [(''resultType'', JStr ''vector''), (''result'', JArr []),
                     (''tenant'', JStr ''a'')]), [''http://a/api/v1/query''])"
    by (simp add: example_defs runtime_defs request_defs execute_query_def query_params_def
          py_or_def)
  note th = empty_tenant_is_default [OF h, where rt = example_runtime and query = "''up''"
      and time = None and w = "[]" and start = "''0''" and end_time = "''1''"
      and step = "''1''" and metric = "''up''"]
  from th have same: "execute_query example_runtime example_config ''up'' None (Some []) []
       = execute_query example_runtime example_config ''up'' None None []"
    by blast
  from th obtain t where
    "fst (requests_get example_runtime
            (build_request t ''query'' (Some (query_params ''up'' None))) [])
       \<noteq> Inl (ValueError (''Tenant '' @ ?m))
     \<longrightarrow> fst (execute_query example_runtime example_config ''up'' None (Some []) [])
           \<noteq> Inl (ValueError (''Tenant '' @ ?m))"
    by blast
  moreover have "fst (requests_get example_runtime
            (build_request t ''query'' (Some (query_params ''up'' None))) [])
       \<noteq> Inl (ValueError (''Tenant '' @ ?m))"
    by (simp add: runtime_defs)
  ultimately have "fst (execute_query example_runtime example_config ''up'' None (Some []) [])
           \<noteq> Inl (ValueError (''Tenant '' @ ?m))"
    by blast
  with h same e show ?thesis by simp
qed

end
